theory Spec2Isabelle
  imports Main "HOL-Library.AList"
begin

section \<open>Python errors\<close>

text \<open>
  The exceptions that the modelled code can raise. \<open>EvaluatorFailure\<close> stands for
  whatever the external evaluator \<open>render_rays\<close> raises.
\<close>

datatype error =
    KeyError
  | TypeError
  | ValueError
  | RuntimeError
  | AttributeError
  | EvaluatorFailure

section \<open>render_state_machine.py\<close>

datatype RenderState = IDLE | RENDERING | PROCESSING | VISUALIZING | ERROR

text \<open>
  A numpy array is either zero-dimensional (\<open>len\<close> raises \<open>TypeError\<close>) or has a
  leading axis (\<open>len\<close> is the number of entries along it).
\<close>

datatype 'a ndarray = Scalar 'a | Array "'a ndarray list"

fun len :: "'a ndarray \<Rightarrow> error + nat" where
  "len (Scalar x) = Inl TypeError"
| "len (Array xs) = Inr (length xs)"

text \<open>
  The metadata dictionary built by \<open>process_render_output\<close> has exactly the keys
  \<open>timestamp\<close> and \<open>num_points\<close>. The timestamp is \<open>np.datetime64('now')\<close>, read
  from the clock; the model takes it as an argument.
\<close>

record metadata_dict =
  timestamp :: int
  num_points :: nat

record 'a RenderOutput =
  points :: "'a ndarray"
  colors :: "'a ndarray"
  depths :: "'a ndarray"
  normals :: "'a ndarray option"
  metadata :: "metadata_dict option"

text \<open>
  The state machine: \<open>state\<close>, \<open>current_output\<close> and the unbounded
  \<open>queue.Queue\<close> as a list, oldest entry first. The lock is not modelled: every
  method below is one atomic step.
\<close>

record 'a RenderStateMachine =
  state :: RenderState
  current_output :: "'a RenderOutput option"
  output_queue :: "'a RenderOutput list"

definition init :: "'a RenderStateMachine" where
  "init = \<lparr>state = IDLE, current_output = None, output_queue = []\<rparr>"

definition start_render :: "'a RenderStateMachine \<Rightarrow> 'a RenderStateMachine" where
  "start_render m = (if state m = IDLE then m\<lparr>state := RENDERING\<rparr> else m)"

text \<open>\<open>render_data[k]\<close>: a missing key raises \<open>KeyError\<close>.\<close>

definition getitem :: "(string \<rightharpoonup> 'v) \<Rightarrow> string \<Rightarrow> error + 'v" where
  "getitem d k = (case d k of None \<Rightarrow> Inl KeyError | Some v \<Rightarrow> Inr v)"

text \<open>
  The construction of the \<open>RenderOutput\<close> inside the \<open>try\<close> block, in the source's
  evaluation order: the three required keys, the optional \<open>normals\<close>, then the
  metadata with \<open>len(render_data["points"])\<close>.
\<close>

definition make_output ::
  "int \<Rightarrow> (string \<rightharpoonup> 'a ndarray) \<Rightarrow> error + 'a RenderOutput" where
  "make_output now render_data =
     (case getitem render_data ''points'' of Inl e \<Rightarrow> Inl e | Inr p \<Rightarrow>
      case getitem render_data ''colors'' of Inl e \<Rightarrow> Inl e | Inr c \<Rightarrow>
      case getitem render_data ''depths'' of Inl e \<Rightarrow> Inl e | Inr d \<Rightarrow>
      case getitem render_data ''points'' of Inl e \<Rightarrow> Inl e | Inr p' \<Rightarrow>
      case len p' of Inl e \<Rightarrow> Inl e | Inr n \<Rightarrow>
        Inr \<lparr>points = p, colors = c, depths = d,
             normals = render_data ''normals'',
             metadata = Some \<lparr>timestamp = now, num_points = n\<rparr>\<rparr>)"

text \<open>
  \<open>process_render_output\<close>: outside \<open>RENDERING\<close> nothing happens. Inside, the state
  is set to \<open>PROCESSING\<close> first; an exception of the construction is caught, printed,
  and leaves the state \<open>ERROR\<close>.
\<close>

definition process_render_output ::
  "int \<Rightarrow> (string \<rightharpoonup> 'a ndarray) \<Rightarrow> 'a RenderStateMachine \<Rightarrow> 'a RenderStateMachine" where
  "process_render_output now render_data m =
     (if state m = RENDERING then
        (let m1 = m\<lparr>state := PROCESSING\<rparr> in
         case make_output now render_data of
           Inl e \<Rightarrow> m1\<lparr>state := ERROR\<rparr>
         | Inr output \<Rightarrow>
             (let m2 = m1\<lparr>current_output := Some output\<rparr>;
                  m3 = m2\<lparr>output_queue := output_queue m2 @ [output]\<rparr>
              in m3\<lparr>state := VISUALIZING\<rparr>))
      else m)"

definition get_latest_output :: "'a RenderStateMachine \<Rightarrow> 'a RenderOutput option" where
  "get_latest_output m = current_output m"

text \<open>
  \<open>get_next_output\<close>: the head of the queue, or \<open>None\<close> when the queue is still empty
  at the timeout.
\<close>

definition get_next_output ::
  "'a RenderStateMachine \<Rightarrow> 'a RenderOutput option \<times> 'a RenderStateMachine" where
  "get_next_output m =
     (case output_queue m of
        [] \<Rightarrow> (None, m)
      | x # q \<Rightarrow> (Some x, m\<lparr>output_queue := q\<rparr>))"

text \<open>The \<open>while not self.output_queue.empty()\<close> loop of \<open>reset\<close>.\<close>

fun clear_queue :: "'b list \<Rightarrow> 'b list" where
  "clear_queue [] = []"
| "clear_queue (x # q) = clear_queue q"

definition reset :: "'a RenderStateMachine \<Rightarrow> 'a RenderStateMachine" where
  "reset m =
     (let m1 = m\<lparr>state := IDLE\<rparr>;
          m2 = m1\<lparr>current_output := None\<rparr>
      in m2\<lparr>output_queue := clear_queue (output_queue m2)\<rparr>)"

text \<open>
  A consumer that calls \<open>get_next_output\<close> \<open>k\<close> times: the results in order, and the
  machine afterwards.
\<close>

fun polls :: "nat \<Rightarrow> 'a RenderStateMachine \<Rightarrow> 'a RenderOutput option list \<times> 'a RenderStateMachine" where
  "polls 0 m = ([], m)"
| "polls (Suc k) m =
     (case get_next_output m of (r, m') \<Rightarrow>
        (case polls k m' of (rs, m'') \<Rightarrow> (r # rs, m'')))"

text \<open>The outputs among a list of poll results (\<open>None\<close> is an empty poll).\<close>

fun received :: "'b option list \<Rightarrow> 'b list" where
  "received [] = []"
| "received (None # rs) = received rs"
| "received (Some x # rs) = x # received rs"

section \<open>render_image_LinGaoyuan.py\<close>

subsection \<open>Tensors\<close>

text \<open>
  A torch tensor with at least one axis: \<open>rows\<close> are its entries along axis 0 (the
  ray axis), each entry flattened, and \<open>rshape\<close> is the shape of one entry (the
  trailing dimensions). \<open>t[i : i + c]\<close> with \<open>0 \<le> i\<close> and \<open>0 \<le> c\<close> keeps the
  entries \<open>i, \<dots>, i + c - 1\<close> that exist.
\<close>

record 'a tensor =
  rows :: "'a list list"
  rshape :: "nat list"

definition shape0 :: "'a tensor \<Rightarrow> nat" where
  "shape0 t = length (rows t)"

definition numel :: "'a tensor \<Rightarrow> nat" where
  "numel t = length (rows t) * prod_list (rshape t)"

definition slice :: "nat \<Rightarrow> nat \<Rightarrow> 'a tensor \<Rightarrow> 'a tensor" where
  "slice i c t = t\<lparr>rows := take c (drop i (rows t))\<rparr>"

text \<open>
  A tensor of any rank, as the result of \<open>reshape\<close> and \<open>squeeze\<close>: its shape and
  its entries in row-major order. \<open>as_shaped\<close> reads a tensor with a ray axis this way.
\<close>

record 'a shaped =
  sshape :: "nat list"
  sdata :: "'a list"

definition as_shaped :: "'a tensor \<Rightarrow> 'a shaped" where
  "as_shaped t = \<lparr>sshape = length (rows t) # rshape t, sdata = concat (rows t)\<rparr>"

text \<open>
  \<open>torch.cat(ts, dim=0)\<close>: an empty list is rejected, and so are tensors whose
  trailing dimensions differ (both \<open>RuntimeError\<close>).
\<close>

definition torch_cat :: "'a tensor list \<Rightarrow> error + 'a tensor" where
  "torch_cat ts =
     (case ts of
        [] \<Rightarrow> Inl RuntimeError
      | t # us \<Rightarrow>
          if list_all (\<lambda>u. rshape u = rshape t) us
          then Inr \<lparr>rows = concat (map rows ts), rshape = rshape t\<rparr>
          else Inl RuntimeError)"

text \<open>
  \<open>x.reshape((h, w, -1))\<close>: the missing dimension is inferred when \<open>h * w\<close> is
  positive and divides the number of elements; every other case is a \<open>RuntimeError\<close>.
\<close>

definition reshape :: "nat \<Rightarrow> nat \<Rightarrow> 'a tensor \<Rightarrow> error + 'a shaped" where
  "reshape h w t =
     (if h * w = 0 then Inl RuntimeError
      else if numel t mod (h * w) \<noteq> 0 then Inl RuntimeError
      else Inr \<lparr>sshape = [h, w, numel t div (h * w)], sdata = concat (rows t)\<rparr>)"

text \<open>\<open>x.squeeze()\<close> drops every dimension of size 1.\<close>

definition squeeze :: "'a shaped \<Rightarrow> 'a shaped" where
  "squeeze x = x\<lparr>sshape := filter (\<lambda>d. d \<noteq> 1) (sshape x)\<rparr>"

subsection \<open>Dictionaries and loops\<close>

text \<open>
  An (ordered) dictionary is an association list in insertion order; \<open>d[k]\<close> raises
  \<open>KeyError\<close> on a missing key, and \<open>d[k] = v\<close> is \<open>AList.update\<close>.
\<close>

definition dict_get :: "(string \<times> 'v) list \<Rightarrow> string \<Rightarrow> error + 'v" where
  "dict_get d k = (case map_of d k of None \<Rightarrow> Inl KeyError | Some v \<Rightarrow> Inr v)"

text \<open>A \<open>for\<close> loop whose body may raise: the first error ends the loop.\<close>

fun for_each :: "('x \<Rightarrow> 's \<Rightarrow> error + 's) \<Rightarrow> 'x list \<Rightarrow> 's \<Rightarrow> error + 's" where
  "for_each f [] s = Inr s"
| "for_each f (x # xs) s =
     (case f x s of Inl e \<Rightarrow> Inl e | Inr s' \<Rightarrow> for_each f xs s')"

text \<open>
  \<open>range(i, n, c)\<close> for a positive step \<open>c\<close>. (\<open>range\<close> with step 0 raises
  \<open>ValueError\<close>; \<open>render_single_image\<close> below checks that before it uses this list.)
\<close>

function range_from :: "nat \<Rightarrow> nat \<Rightarrow> nat \<Rightarrow> nat list" where
  "range_from i n c = (if c = 0 \<or> n \<le> i then [] else i # range_from (i + c) n c)"
  by pat_completeness auto
termination
  by (relation "measure (\<lambda>(i, n, c). n - i)") auto

declare range_from.simps [simp del]

subsection \<open>The data of one render call\<close>

text \<open>
  What \<open>render_rays\<close> returns for one chunk (the first component of its result):
  the two tiers, each a dictionary from field name to a tensor or \<open>None\<close>, the fine
  tier possibly \<open>None\<close> itself, and the optional keys \<open>sample_points\<close>, \<open>features\<close>,
  \<open>colors\<close>, \<open>densities\<close>, \<open>z_vals\<close> (\<open>None\<close> here: the key is absent).
\<close>

record 'a ret =
  ret_outputs_coarse :: "(string \<times> 'a tensor option) list"
  ret_outputs_fine :: "(string \<times> 'a tensor option) list option"
  ret_sample_points :: "'a tensor option"
  ret_features :: "'a tensor option"
  ret_colors :: "'a tensor option"
  ret_densities :: "'a tensor option"
  ret_z_vals :: "'a tensor option"

text \<open>
  The accumulators while the chunk loop runs: for each tier the dictionary from
  field name to the Python list of per-chunk tensors (\<open>all_ret["outputs_coarse"]\<close>,
  \<open>all_ret["outputs_fine"]\<close>, the latter possibly \<open>None\<close>), and the local dictionary
  \<open>three_d_data\<close> of lists (an entry of a list is \<open>None\<close> when a \<open>None\<close> was
  appended).
\<close>

record 'a accum =
  acc_coarse :: "(string \<times> 'a tensor list) list"
  acc_fine :: "(string \<times> 'a tensor list) list option"
  acc_three_d :: "(string \<times> 'a tensor option list) list"

definition accum_init :: "'a accum" where
  "accum_init =
     \<lparr>acc_coarse = [], acc_fine = Some [],
      acc_three_d =
        [(''ray_origins'', []), (''ray_directions'', []),
         (''sample_points'', []), (''features'', []),
         (''colors'', []), (''densities'', []),
         (''weights'', []), (''z_values'', [])]\<rparr>"

text \<open>
  A value of a tier of the returned \<open>all_ret\<close>: still the Python list of per-chunk
  tensors, or one merged tensor.
\<close>

datatype 'a field_value = Chunks "'a tensor list" | Merged "'a shaped"

text \<open>
  A value of the returned \<open>three_d_data\<close>: the list it started as (only when it is
  empty), or the concatenated tensor.
\<close>

datatype 'a td_value = TList "'a tensor option list" | TCat "'a tensor"

record 'a all_ret =
  outputs_coarse :: "(string \<times> 'a field_value) list"
  outputs_fine :: "(string \<times> 'a field_value) list option"
  three_d_data :: "(string \<times> 'a td_value) list"

subsection \<open>The chunk loop\<close>

definition shared_keys :: "string list" where
  "shared_keys = [''camera'', ''depth_range'', ''src_rgbs'', ''src_cameras'']"

text \<open>The chunk built from \<open>ray_batch\<close> for the rays \<open>i, \<dots>, i + chunk_size - 1\<close>.\<close>

definition make_chunk ::
  "(string \<times> 'a tensor option) list \<Rightarrow> nat \<Rightarrow> nat \<Rightarrow> (string \<times> 'a tensor option) list" where
  "make_chunk ray_batch i chunk_size =
     map (\<lambda>(k, v).
            if k \<in> set shared_keys then (k, v)
            else (case v of
                    Some t \<Rightarrow> (k, Some (slice i chunk_size t))
                  | None \<Rightarrow> (k, None)))
         ray_batch"

definition depth_prior_chunk :: "bool \<Rightarrow> 'a tensor option \<Rightarrow> nat \<Rightarrow> nat \<Rightarrow> 'a tensor option" where
  "depth_prior_chunk use_updated_prior_depth train_depth_prior i chunk_size =
     (case train_depth_prior of
        Some t \<Rightarrow> if use_updated_prior_depth then Some (slice i chunk_size t) else None
      | None \<Rightarrow> None)"

text \<open>
  \<open>d[key].append(x)\<close> for a dictionary of lists: \<open>KeyError\<close> when \<open>d\<close> has no
  such key.
\<close>

definition dict_append ::
  "string \<Rightarrow> 'v \<Rightarrow> (string \<times> 'v list) list \<Rightarrow> error + (string \<times> 'v list) list" where
  "dict_append key x d =
     (case map_of d key of
        None \<Rightarrow> Inl KeyError
      | Some l \<Rightarrow> Inr (AList.update key (l @ [x]) d))"

text \<open>\<open>if key in ret: three_d_data[name].append(ret[key])\<close> for an optional key.\<close>

definition td_append_if ::
  "string \<Rightarrow> 'a tensor option \<Rightarrow> (string \<times> 'a tensor option list) list
     \<Rightarrow> error + (string \<times> 'a tensor option list) list" where
  "td_append_if name v td = (case v of None \<Rightarrow> Inr td | Some t \<Rightarrow> dict_append name (Some t) td)"

text \<open>
  \<open>if "weights" in ret["outputs_coarse"]:
  three_d_data["weights"].append(ret["outputs_coarse"]["weights"])\<close>: the value is
  appended also when it is \<open>None\<close>.
\<close>

definition td_append_weights ::
  "(string \<times> 'a tensor option) list \<Rightarrow> (string \<times> 'a tensor option list) list
     \<Rightarrow> error + (string \<times> 'a tensor option list) list" where
  "td_append_weights coarse td =
     (case map_of coarse ''weights'' of None \<Rightarrow> Inr td | Some v \<Rightarrow> dict_append ''weights'' v td)"

text \<open>
  Schema discovery on the first chunk:
  \<open>for k in tier: if tier[k] is not None: acc[k] = []\<close>.
\<close>

fun discover ::
  "(string \<times> 'a tensor option) list \<Rightarrow> (string \<times> 'a tensor list) list \<Rightarrow> (string \<times> 'a tensor list) list" where
  "discover [] acc = acc"
| "discover ((k, v) # tier) acc =
     (case v of
        None \<Rightarrow> discover tier acc
      | Some t \<Rightarrow> discover tier (AList.update k [] acc))"

text \<open>
  Accumulation of one chunk into one tier:
  \<open>for k in tier: if tier[k] is not None: acc[k].append(tier[k].cpu())\<close>.
\<close>

definition accumulate ::
  "(string \<times> 'a tensor option) list \<Rightarrow> (string \<times> 'a tensor list) list
     \<Rightarrow> error + (string \<times> 'a tensor list) list" where
  "accumulate tier acc =
     for_each (\<lambda>(k, v) a. case v of None \<Rightarrow> Inr a | Some t \<Rightarrow> dict_append k t a) tier acc"

text \<open>
  The same for the fine tier. \<open>all_ret["outputs_fine"]\<close> may have been set to \<open>None\<close>
  by the first chunk: subscripting it, which happens at the first value of the chunk's
  fine tier that is not \<open>None\<close>, is then a \<open>TypeError\<close>.
\<close>

definition accumulate_fine ::
  "(string \<times> 'a tensor option) list option \<Rightarrow> (string \<times> 'a tensor list) list option
     \<Rightarrow> error + (string \<times> 'a tensor list) list option" where
  "accumulate_fine fine acc =
     (case fine of
        None \<Rightarrow> Inr acc
      | Some tier \<Rightarrow>
          (case acc of
             None \<Rightarrow> if list_all (\<lambda>(k, v). v = None) tier then Inr None
                     else Inl TypeError
           | Some a \<Rightarrow>
               (case accumulate tier a of Inl e \<Rightarrow> Inl e | Inr a' \<Rightarrow> Inr (Some a'))))"

text \<open>The \<open>if i == 0\<close> block.\<close>

definition first_chunk :: "'a ret \<Rightarrow> 'a accum \<Rightarrow> error + 'a accum" where
  "first_chunk r st =
     (let st1 = st\<lparr>acc_coarse := discover (ret_outputs_coarse r) (acc_coarse st)\<rparr>
      in case ret_outputs_fine r of
           None \<Rightarrow> Inr (st1\<lparr>acc_fine := None\<rparr>)
         | Some tier \<Rightarrow>
             (case acc_fine st1 of
                None \<Rightarrow> if list_all (\<lambda>(k, v). v = None) tier then Inr st1
                        else Inl TypeError
              | Some a \<Rightarrow> Inr (st1\<lparr>acc_fine := Some (discover tier a)\<rparr>)))"

text \<open>
  The appends to \<open>three_d_data\<close> before the evaluator is called: the chunk's \<open>ray_o\<close>
  and \<open>ray_d\<close>.
\<close>

definition store_rays ::
  "(string \<times> 'a tensor option) list \<Rightarrow> (string \<times> 'a tensor option list) list
     \<Rightarrow> error + (string \<times> 'a tensor option list) list" where
  "store_rays chunk td =
     (case dict_get chunk ''ray_o'' of Inl e \<Rightarrow> Inl e | Inr ro \<Rightarrow>
      case dict_append ''ray_origins'' ro td of Inl e \<Rightarrow> Inl e | Inr td1 \<Rightarrow>
      case dict_get chunk ''ray_d'' of Inl e \<Rightarrow> Inl e | Inr rd \<Rightarrow>
        dict_append ''ray_directions'' rd td1)"

text \<open>The appends to \<open>three_d_data\<close> after the evaluator has returned \<open>r\<close>.\<close>

definition store_samples ::
  "'a ret \<Rightarrow> (string \<times> 'a tensor option list) list
     \<Rightarrow> error + (string \<times> 'a tensor option list) list" where
  "store_samples r td =
     (case td_append_if ''sample_points'' (ret_sample_points r) td of Inl e \<Rightarrow> Inl e | Inr td1 \<Rightarrow>
     (case td_append_if ''features'' (ret_features r) td1 of Inl e \<Rightarrow> Inl e | Inr td2 \<Rightarrow>
     (case td_append_if ''colors'' (ret_colors r) td2 of Inl e \<Rightarrow> Inl e | Inr td3 \<Rightarrow>
     (case td_append_if ''densities'' (ret_densities r) td3 of Inl e \<Rightarrow> Inl e | Inr td4 \<Rightarrow>
     (case td_append_weights (ret_outputs_coarse r) td4 of Inl e \<Rightarrow> Inl e | Inr td5 \<Rightarrow>
        td_append_if ''z_values'' (ret_z_vals r) td5)))))"

text \<open>
  The caching of one chunk's result \<open>r\<close> (lines 121 to 140): schema discovery when
  \<open>i == 0\<close>, then the appends to both tiers.
\<close>

definition cache_chunk :: "nat \<Rightarrow> 'a ret \<Rightarrow> 'a accum \<Rightarrow> error + 'a accum" where
  "cache_chunk i r st =
     (case (if i = 0 then first_chunk r st else Inr st) of Inl e \<Rightarrow> Inl e | Inr st1 \<Rightarrow>
      case accumulate (ret_outputs_coarse r) (acc_coarse st1) of Inl e \<Rightarrow> Inl e | Inr c \<Rightarrow>
      case accumulate_fine (ret_outputs_fine r) (acc_fine st1) of Inl e \<Rightarrow> Inl e | Inr f \<Rightarrow>
        Inr (st1\<lparr>acc_coarse := c, acc_fine := f\<rparr>))"

text \<open>
  One iteration of the chunk loop. The evaluator \<open>render_rays\<close> is external: it is
  the parameter \<open>ev\<close>, which receives the chunk and the chunk of the depth prior and
  returns a result or fails.
\<close>

definition chunk_step ::
  "((string \<times> 'a tensor option) list \<Rightarrow> 'a tensor option \<Rightarrow> error + 'a ret)
     \<Rightarrow> (string \<times> 'a tensor option) list \<Rightarrow> nat \<Rightarrow> bool \<Rightarrow> 'a tensor option
     \<Rightarrow> nat \<Rightarrow> 'a accum \<Rightarrow> error + 'a accum" where
  "chunk_step ev ray_batch chunk_size use_updated_prior_depth train_depth_prior i st =
     (let chunk = make_chunk ray_batch i chunk_size;
          train_depth_prior_chunk =
            depth_prior_chunk use_updated_prior_depth train_depth_prior i chunk_size
      in case store_rays chunk (acc_three_d st) of Inl e \<Rightarrow> Inl e | Inr td1 \<Rightarrow>
         case ev chunk train_depth_prior_chunk of Inl e \<Rightarrow> Inl e | Inr r \<Rightarrow>
         case store_samples r td1 of Inl e \<Rightarrow> Inl e | Inr td2 \<Rightarrow>
           cache_chunk i r (st\<lparr>acc_three_d := td2\<rparr>))"

text \<open>
  The whole loop \<open>for i in range(0, N_rays, chunk_size)\<close>, from the empty
  accumulators. \<open>range\<close> rejects the step 0.
\<close>

definition chunk_loop ::
  "((string \<times> 'a tensor option) list \<Rightarrow> 'a tensor option \<Rightarrow> error + 'a ret)
     \<Rightarrow> (string \<times> 'a tensor option) list \<Rightarrow> nat \<Rightarrow> bool \<Rightarrow> 'a tensor option
     \<Rightarrow> error + 'a accum" where
  "chunk_loop ev ray_batch chunk_size use_updated_prior_depth train_depth_prior =
     (case dict_get ray_batch ''ray_o'' of
        Inl e \<Rightarrow> Inl e
      | Inr None \<Rightarrow> Inl AttributeError
      | Inr (Some ray_o) \<Rightarrow>
          (let N_rays = shape0 ray_o
           in if chunk_size = 0 then Inl ValueError
              else for_each
                     (chunk_step ev ray_batch chunk_size use_updated_prior_depth train_depth_prior)
                     (range_from 0 N_rays chunk_size) accum_init))"

subsection \<open>Merging the chunk results\<close>

text \<open>A loop that rebuilds every item of a dictionary and may raise.\<close>

fun map_each :: "('x \<Rightarrow> error + 'y) \<Rightarrow> 'x list \<Rightarrow> error + 'y list" where
  "map_each f [] = Inr []"
| "map_each f (x # xs) =
     (case f x of Inl e \<Rightarrow> Inl e | Inr y \<Rightarrow>
      case map_each f xs of Inl e \<Rightarrow> Inl e | Inr ys \<Rightarrow> Inr (y # ys))"

text \<open>
  \<open>if three_d_data[key]: three_d_data[key] = torch.cat(three_d_data[key], dim=0)\<close>.
  An empty list stays; a list with a \<open>None\<close> in it is a \<open>TypeError\<close> of \<open>torch.cat\<close>.
\<close>

definition cat_three_d :: "string \<times> 'a tensor option list \<Rightarrow> error + string \<times> 'a td_value" where
  "cat_three_d = (\<lambda>(key, l).
     if l = [] then Inr (key, TList [])
     else (case those l of
             None \<Rightarrow> Inl TypeError
           | Some ts \<Rightarrow> (case torch_cat ts of Inl e \<Rightarrow> Inl e | Inr t \<Rightarrow> Inr (key, TCat t))))"

text \<open>
  One field of a tier: \<open>random_sigma\<close> and \<open>depth_cov\<close> are skipped by \<open>continue\<close>,
  every other field is concatenated, reshaped to the strided image grid and squeezed.
\<close>

definition merge_field :: "nat \<Rightarrow> nat \<Rightarrow> string \<times> 'a tensor list \<Rightarrow> error + string \<times> 'a field_value" where
  "merge_field h w = (\<lambda>(k, l).
     if k = ''random_sigma'' then Inr (k, Chunks l)
     else if k = ''depth_cov'' then Inr (k, Chunks l)
     else (case torch_cat l of Inl e \<Rightarrow> Inl e | Inr tmp \<Rightarrow>
           case reshape h w tmp of Inl e \<Rightarrow> Inl e | Inr tmp' \<Rightarrow>
             Inr (k, Merged (squeeze tmp'))))"

text \<open>
  The first two dimensions of \<open>torch.ones(H, W, 3)[::render_stride, ::render_stride, :]\<close>:
  \<open>H\<close> and \<open>W\<close> divided by the stride, rounded up.
\<close>

definition strided :: "nat \<Rightarrow> nat \<Rightarrow> nat" where
  "strided n render_stride = (n + render_stride - 1) div render_stride"

text \<open>Everything after the loop (lines 142 to 182). A slice step of 0 is a \<open>ValueError\<close>.\<close>

definition merge_chunks :: "nat \<Rightarrow> nat \<Rightarrow> nat \<Rightarrow> 'a accum \<Rightarrow> error + 'a all_ret" where
  "merge_chunks H W render_stride st =
     (case map_each cat_three_d (acc_three_d st) of Inl e \<Rightarrow> Inl e | Inr td \<Rightarrow>
      if render_stride = 0 then Inl ValueError
      else
        (let h = strided H render_stride; w = strided W render_stride
         in case map_each (merge_field h w) (acc_coarse st) of Inl e \<Rightarrow> Inl e | Inr coarse \<Rightarrow>
            (case acc_fine st of
               None \<Rightarrow> Inr \<lparr>outputs_coarse = coarse, outputs_fine = None, three_d_data = td\<rparr>
             | Some a \<Rightarrow>
                 (case map_each (merge_field h w) a of Inl e \<Rightarrow> Inl e | Inr fine \<Rightarrow>
                    Inr \<lparr>outputs_coarse = coarse, outputs_fine = Some fine, three_d_data = td\<rparr>))))"

text \<open>
  \<open>render_single_image\<close>. \<open>H\<close> and \<open>W\<close> are \<open>ray_sampler.H\<close> and \<open>ray_sampler.W\<close>;
  the arguments that are only handed on to the evaluator are part of \<open>ev\<close>.
\<close>

definition render_single_image ::
  "((string \<times> 'a tensor option) list \<Rightarrow> 'a tensor option \<Rightarrow> error + 'a ret)
     \<Rightarrow> nat \<Rightarrow> nat \<Rightarrow> (string \<times> 'a tensor option) list \<Rightarrow> nat \<Rightarrow> nat \<Rightarrow> bool \<Rightarrow> 'a tensor option
     \<Rightarrow> error + 'a all_ret" where
  "render_single_image ev H W ray_batch chunk_size render_stride
       use_updated_prior_depth train_depth_prior =
     (case chunk_loop ev ray_batch chunk_size use_updated_prior_depth train_depth_prior of
        Inl e \<Rightarrow> Inl e
      | Inr st \<Rightarrow> merge_chunks H W render_stride st)"

subsection \<open>Reading a chunk result\<close>

text \<open>
  \<open>present k tier\<close>: the tier of a chunk result has the field \<open>k\<close> with a value that
  is not \<open>None\<close>. \<open>values_of k tier\<close>: that value, as a list (empty when the field is
  missing or \<open>None\<close>).
\<close>

definition present :: "string \<Rightarrow> (string \<times> 'v option) list \<Rightarrow> bool" where
  "present k tier = list_ex (\<lambda>(k', v). k' = k \<and> v \<noteq> None) tier"

fun values_of :: "string \<Rightarrow> (string \<times> 'v option) list \<Rightarrow> 'v list" where
  "values_of k [] = []"
| "values_of k ((k', v) # tier) =
     (case v of
        None \<Rightarrow> values_of k tier
      | Some t \<Rightarrow> if k' = k then t # values_of k tier else values_of k tier)"

subsection \<open>Example data\<close>

text \<open>
  Concrete inputs at which the theorems below are instantiated: \<open>n\<close> rays whose
  origin and direction are the ray's index, and an evaluator that returns only a
  coarse tier, with the fields \<open>color\<close> and \<open>depth\<close>, one row per ray of the chunk.
\<close>

definition ex_rays :: "nat \<Rightarrow> nat tensor" where
  "ex_rays n = \<lparr>rows = map (\<lambda>i. [i]) [0 ..< n], rshape = [1]\<rparr>"

definition ex_batch :: "nat \<Rightarrow> (string \<times> nat tensor option) list" where
  "ex_batch n = [(''ray_o'', Some (ex_rays n)), (''ray_d'', Some (ex_rays n)), (''camera'', None)]"

definition no_samples :: "(string \<times> 'a tensor option) list \<Rightarrow> (string \<times> 'a tensor option) list option \<Rightarrow> 'a ret" where
  "no_samples coarse fine =
     \<lparr>ret_outputs_coarse = coarse, ret_outputs_fine = fine,
      ret_sample_points = None, ret_features = None, ret_colors = None,
      ret_densities = None, ret_z_vals = None\<rparr>"

definition ev_coarse_only ::
  "(string \<times> nat tensor option) list \<Rightarrow> nat tensor option \<Rightarrow> error + nat ret" where
  "ev_coarse_only chunk prior =
     (case map_of chunk ''ray_o'' of
        Some (Some t) \<Rightarrow> Inr (no_samples [(''color'', Some t), (''depth'', Some t)] None)
      | _ \<Rightarrow> Inl EvaluatorFailure)"

section \<open>Properties of the render state machine\<close>

lemma clear_queue_Nil: "clear_queue q = []"
  by (induction q) simp_all

lemma polls_queue:
  "received (fst (polls k m)) @ output_queue (snd (polls k m)) = output_queue m"
proof (induction k arbitrary: m)
  case 0
  show ?case by simp
next
  case (Suc k)
  show ?case
  proof (cases "output_queue m")
    case Nil
    with Suc [of m] show ?thesis
      by (auto simp add: get_next_output_def split: prod.splits)
  next
    case (Cons x q)
    with Suc [of "m\<lparr>output_queue := q\<rparr>"] show ?thesis
      by (auto simp add: get_next_output_def split: prod.splits)
  qed
qed

lemma polls_frame:
  "state (snd (polls k m)) = state m \<and> current_output (snd (polls k m)) = current_output m"
proof (induction k arbitrary: m)
  case 0
  show ?case by simp
next
  case (Suc k)
  show ?case
  proof (cases "output_queue m")
    case Nil
    with Suc [of m] show ?thesis
      by (auto simp add: get_next_output_def split: prod.splits)
  next
    case (Cons x q)
    with Suc [of "m\<lparr>output_queue := q\<rparr>"] show ?thesis
      by (auto simp add: get_next_output_def split: prod.splits)
  qed
qed

lemma publish_ok:
  assumes "state m = RENDERING" and "make_output now d = Inr out"
  shows "process_render_output now d m =
           m\<lparr>state := VISUALIZING, current_output := Some out,
             output_queue := output_queue m @ [out]\<rparr>"
  using assms by (simp add: process_render_output_def Let_def)

text \<open>
  C7. A transition attempted outside its source state changes nothing:
  \<open>start_render\<close> in any state other than \<open>IDLE\<close> and \<open>process_render_output\<close> in any
  state other than \<open>RENDERING\<close> return the machine as it was (state, current-output
  slot and queue).
\<close>

theorem C7_illegal_transition_noop:
  "(state m \<noteq> IDLE \<longrightarrow> start_render m = m) \<and>
   (state m \<noteq> RENDERING \<longrightarrow> process_render_output now d m = m)"
  by (simp add: start_render_def process_render_output_def)

theorem C7_illegal_transition_noop_witness:
  "state \<lparr>state = VISUALIZING, current_output = None, output_queue = []\<rparr> \<noteq> IDLE \<and>
   state \<lparr>state = VISUALIZING, current_output = None, output_queue = []\<rparr> \<noteq> RENDERING \<and>
   start_render \<lparr>state = VISUALIZING, current_output = None,
     output_queue = ([] :: nat RenderOutput list)\<rparr>
     = \<lparr>state = VISUALIZING, current_output = None, output_queue = []\<rparr> \<and>
   process_render_output 0 (Map.empty(''points'' \<mapsto> Array [Scalar (1::nat)]))
     \<lparr>state = VISUALIZING, current_output = None, output_queue = []\<rparr>
     = \<lparr>state = VISUALIZING, current_output = None, output_queue = []\<rparr>"
  using C7_illegal_transition_noop
    [of "\<lparr>state = VISUALIZING, current_output = None, output_queue = ([] :: nat RenderOutput list)\<rparr>"
        0 "Map.empty(''points'' \<mapsto> Array [Scalar (1::nat)])"]
  by simp

text \<open>
  C8. \<open>reset\<close> from any machine gives state \<open>IDLE\<close>, an empty current-output slot and
  an empty queue, and a second \<open>reset\<close> changes nothing more.
\<close>

theorem C8_reset_idempotent:
  "reset m = \<lparr>state = IDLE, current_output = None, output_queue = []\<rparr> \<and>
   reset (reset m) = reset m"
  by (simp add: reset_def Let_def clear_queue_Nil)

text \<open>
  C10. A publish from \<open>RENDERING\<close> whose payload lacks one of the keys \<open>points\<close>,
  \<open>colors\<close>, \<open>depths\<close>: the \<open>KeyError\<close> is caught inside the method (the method
  returns a machine, it has no error result), the state ends \<open>ERROR\<close>, and the
  current-output slot and the queue are as before the call.
\<close>

theorem C10_failed_publish_atomic:
  assumes "state m = RENDERING"
    and "d ''points'' = None \<or> d ''colors'' = None \<or> d ''depths'' = None"
  shows "state (process_render_output now d m) = ERROR \<and>
         current_output (process_render_output now d m) = current_output m \<and>
         output_queue (process_render_output now d m) = output_queue m"
proof -
  from assms(2) have "\<exists>e. make_output now d = Inl e"
    by (auto simp add: make_output_def getitem_def split: option.splits sum.splits)
  then obtain e where "make_output now d = Inl e" ..
  with assms(1) show ?thesis
    by (simp add: process_render_output_def Let_def)
qed

theorem C10_failed_publish_atomic_witness:
  "state (process_render_output 5 (Map.empty(''points'' \<mapsto> Array [Scalar (1::nat)]))
      \<lparr>state = RENDERING, current_output = None, output_queue = []\<rparr>) = ERROR \<and>
   current_output (process_render_output 5 (Map.empty(''points'' \<mapsto> Array [Scalar (1::nat)]))
      \<lparr>state = RENDERING, current_output = None, output_queue = []\<rparr>) = None \<and>
   output_queue (process_render_output 5 (Map.empty(''points'' \<mapsto> Array [Scalar (1::nat)]))
      \<lparr>state = RENDERING, current_output = None, output_queue = []\<rparr>) = []"
  using C10_failed_publish_atomic
    [of "\<lparr>state = RENDERING, current_output = None, output_queue = ([] :: nat RenderOutput list)\<rparr>"
        "Map.empty(''points'' \<mapsto> Array [Scalar (1::nat)])" 5]
  by simp

text \<open>
  C6. Three publishes, each performed with the machine in \<open>RENDERING\<close>, with the
  consumer polling any number of times (\<open>k1\<close>, \<open>k2\<close>, \<open>k3\<close>) after each of them.
  After each publish, and after the polls that follow it, \<open>get_latest_output\<close> is the
  output just published. The outputs the polls return, followed by what is still in
  the queue, are the queue's initial content followed by \<open>o1\<close>, \<open>o2\<close>, \<open>o3\<close> in
  publish order: nothing is lost, duplicated or reordered.
\<close>

theorem C6_publish_fifo:
  assumes "state m0 = RENDERING"
    and "make_output t1 d1 = Inr o1"
    and "make_output t2 d2 = Inr o2"
    and "make_output t3 d3 = Inr o3"
    and "m1 = process_render_output t1 d1 m0"
    and "p1 = polls k1 m1"
    and "m2 = process_render_output t2 d2 ((snd p1)\<lparr>state := RENDERING\<rparr>)"
    and "p2 = polls k2 m2"
    and "m3 = process_render_output t3 d3 ((snd p2)\<lparr>state := RENDERING\<rparr>)"
    and "p3 = polls k3 m3"
  shows "get_latest_output m1 = Some o1 \<and> get_latest_output (snd p1) = Some o1 \<and>
         get_latest_output m2 = Some o2 \<and> get_latest_output (snd p2) = Some o2 \<and>
         get_latest_output m3 = Some o3 \<and> get_latest_output (snd p3) = Some o3 \<and>
         received (fst p1) @ received (fst p2) @ received (fst p3) @ output_queue (snd p3)
           = output_queue m0 @ [o1, o2, o3]"
proof -
  have m1: "current_output m1 = Some o1" "output_queue m1 = output_queue m0 @ [o1]"
    using assms(1,2,5) by (simp_all add: publish_ok)
  have p1: "current_output (snd p1) = Some o1"
    "received (fst p1) @ output_queue (snd p1) = output_queue m0 @ [o1]"
    using m1 polls_frame [of k1 m1] polls_queue [of k1 m1] assms(6) by simp_all
  have m2: "current_output m2 = Some o2" "output_queue m2 = output_queue (snd p1) @ [o2]"
    using assms(3,7) by (simp_all add: publish_ok)
  have p2: "current_output (snd p2) = Some o2"
    "received (fst p2) @ output_queue (snd p2) = output_queue (snd p1) @ [o2]"
    using m2 polls_frame [of k2 m2] polls_queue [of k2 m2] assms(8) by simp_all
  have m3: "current_output m3 = Some o3" "output_queue m3 = output_queue (snd p2) @ [o3]"
    using assms(4,9) by (simp_all add: publish_ok)
  have p3: "current_output (snd p3) = Some o3"
    "received (fst p3) @ output_queue (snd p3) = output_queue (snd p2) @ [o3]"
    using m3 polls_frame [of k3 m3] polls_queue [of k3 m3] assms(10) by simp_all
  have "received (fst p1) @ received (fst p2) @ received (fst p3) @ output_queue (snd p3)
        = received (fst p1) @ (received (fst p2) @ output_queue (snd p2)) @ [o3]"
    using p3(2) by simp
  also have "\<dots> = (received (fst p1) @ output_queue (snd p1)) @ [o2, o3]"
    using p2(2) by simp
  also have "\<dots> = output_queue m0 @ [o1, o2, o3]"
    using p1(2) by simp
  finally show ?thesis
    using m1(1) p1(1) m2(1) p2(1) m3(1) p3(1) by (simp add: get_latest_output_def)
qed

section \<open>Properties of the chunking\<close>

lemma range_from_stop: "c = 0 \<or> n \<le> i \<Longrightarrow> range_from i n c = []"
  by (subst range_from.simps) simp

lemma range_from_step: "0 < c \<Longrightarrow> i < n \<Longrightarrow> range_from i n c = i # range_from (i + c) n c"
  by (subst range_from.simps) simp

lemma div_step:
  assumes "0 < (c::nat)" "i < n"
  shows "(n - i + c - 1) div c = Suc ((n - (i + c) + c - 1) div c)"
proof (cases "i + c \<le> n")
  case True
  define a where "a = n - (i + c) + c - 1"
  have e: "n - i + c - 1 = a + c" unfolding a_def using True assms by arith
  have "(a + c) div c = Suc (a div c)" using assms(1) div_add_self2 [of c a] by linarith
  then show ?thesis unfolding e a_def .
next
  case False
  define x where "x = n - i + c - 1"
  have a: "n - (i + c) + c - 1 = c - 1" using False by arith
  have b: "c * 1 \<le> x" "x < c * Suc 1" unfolding x_def using assms False by arith+
  have "x div c = 1" using b by (rule div_nat_eqI)
  moreover have "(c - 1) div c = 0" using assms by simp
  ultimately show ?thesis unfolding x_def a by simp
qed

lemma map_shift: "map (\<lambda>k. i + k * c) [0 ..< Suc m] = i # map (\<lambda>k. i + c + k * c) [0 ..< m]"
proof -
  have "[0 ..< Suc m] = 0 # map Suc [0 ..< m]"
    by (simp add: upt_conv_Cons map_Suc_upt del: upt_Suc)
  then show ?thesis by (simp add: comp_def add.assoc del: upt_Suc)
qed

lemma take_drop_split: "take c (drop i xs) @ drop (i + c) xs = drop i xs"
  by (metis add.commute append_take_drop_id drop_drop)

lemma concat_chunks:
  "0 < c \<Longrightarrow> concat (map (\<lambda>j. take c (drop j xs)) (range_from i (length xs) c)) = drop i xs"
proof (induction i "length xs" c rule: range_from.induct)
  case (1 i c)
  show ?case
  proof (cases "length xs \<le> i")
    case True
    then show ?thesis by (simp add: range_from_stop)
  next
    case False
    with 1 have "concat (map (\<lambda>j. take c (drop j xs)) (range_from (i + c) (length xs) c)) = drop (i + c) xs"
      by simp
    then show ?thesis using False 1(2) by (simp add: range_from_step take_drop_split)
  qed
qed

section \<open>Properties of the accumulation\<close>

lemma present_Nil [simp]: "\<not> present k []"
  by (simp add: present_def)

lemma present_Cons [simp]:
  "present k ((k', v) # tier) \<longleftrightarrow> (k' = k \<and> v \<noteq> None) \<or> present k tier"
  by (simp add: present_def)

lemma values_of_empty: "values_of k tier = [] \<longleftrightarrow> \<not> present k tier"
  by (induction tier) (auto split: option.splits if_splits)

lemma discover_map_of:
  "map_of (discover tier acc) k = (if present k tier then Some [] else map_of acc k)"
proof (induction tier arbitrary: acc)
  case Nil
  show ?case by simp
next
  case (Cons kv tier)
  obtain k' v where kv: "kv = (k', v)" by (cases kv)
  show ?case
    unfolding kv using Cons [of acc] Cons [of "AList.update k' [] acc"]
    by (cases v) (auto simp add: update_conv')
qed

lemma dict_append_Inr:
  "dict_append key x d = Inr d' \<Longrightarrow>
     map_of d' k = (if k = key then map_option (\<lambda>l. l @ [x]) (map_of d key) else map_of d k)"
  by (auto simp add: dict_append_def update_conv' split: option.splits)

lemma dict_append_ok:
  "map_of d key = Some l \<Longrightarrow> dict_append key x d = Inr (AList.update key (l @ [x]) d)"
  by (simp add: dict_append_def)

lemma dict_append_fail:
  "map_of d key = None \<Longrightarrow> dict_append key x d = Inl KeyError"
  by (simp add: dict_append_def)

lemma accumulate_Nil [simp]: "accumulate [] acc = Inr acc"
  by (simp add: accumulate_def)

lemma accumulate_None: "accumulate ((k, None) # tier) acc = accumulate tier acc"
  by (simp add: accumulate_def)

lemma accumulate_Some:
  "accumulate ((k, Some t) # tier) acc =
     (case dict_append k t acc of Inl e \<Rightarrow> Inl e | Inr a \<Rightarrow> accumulate tier a)"
  by (simp add: accumulate_def split: sum.splits)

lemma accumulate_Inr:
  "accumulate tier acc = Inr acc' \<Longrightarrow>
     map_of acc' k = map_option (\<lambda>l. l @ values_of k tier) (map_of acc k)"
proof (induction tier arbitrary: acc)
  case Nil
  then show ?case by (simp add: option.map_ident)
next
  case (Cons kv tier)
  obtain k' v where kv: "kv = (k', v)" by (cases kv)
  show ?case
  proof (cases v)
    case None
    with Cons kv show ?thesis by (simp add: accumulate_None)
  next
    case (Some t)
    with Cons.prems kv obtain a where a: "dict_append k' t acc = Inr a" "accumulate tier a = Inr acc'"
      by (auto simp add: accumulate_Some split: sum.splits)
    from Cons.IH [OF a(2)] dict_append_Inr [OF a(1), of k] Some kv show ?thesis
      by (auto simp add: option.map_comp comp_def)
  qed
qed

lemma accumulate_ok:
  "(\<And>k. present k tier \<Longrightarrow> map_of acc k \<noteq> None) \<Longrightarrow> \<exists>acc'. accumulate tier acc = Inr acc'"
proof (induction tier arbitrary: acc)
  case Nil
  show ?case by simp
next
  case (Cons kv tier)
  obtain k' v where kv: "kv = (k', v)" by (cases kv)
  show ?case
  proof (cases v)
    case None
    with Cons kv show ?thesis by (simp add: accumulate_None)
  next
    case (Some t)
    with Cons.prems [of k'] kv obtain l where l: "map_of acc k' = Some l" by auto
    have "\<exists>acc'. accumulate tier (AList.update k' (l @ [t]) acc) = Inr acc'"
    proof (rule Cons.IH)
      fix k assume "present k tier"
      with Cons.prems [of k] kv show "map_of (AList.update k' (l @ [t]) acc) k \<noteq> None"
        by (simp add: update_conv')
    qed
    with Some kv l show ?thesis by (simp add: accumulate_Some dict_append_ok)
  qed
qed

lemma accumulate_fail:
  "present k tier \<Longrightarrow> map_of acc k = None \<Longrightarrow> \<exists>e. accumulate tier acc = Inl e"
proof (induction tier arbitrary: acc)
  case Nil
  then show ?case by simp
next
  case (Cons kv tier)
  obtain k' v where kv: "kv = (k', v)" by (cases kv)
  show ?case
  proof (cases v)
    case None
    with Cons kv show ?thesis by (simp add: accumulate_None)
  next
    case (Some t)
    show ?thesis
    proof (cases "dict_append k' t acc")
      case (Inl e)
      with Some kv show ?thesis by (simp add: accumulate_Some)
    next
      case (Inr a)
      from Inr have k': "map_of acc k' \<noteq> None"
        by (auto simp add: dict_append_def split: option.splits)
      with Cons.prems(2) have ne: "k' \<noteq> k" by auto
      with Cons.prems(1) kv have p: "present k tier" by simp
      from dict_append_Inr [OF Inr, of k] ne Cons.prems(2) have "map_of a k = None" by simp
      from Cons.IH [OF p this] Some kv Inr show ?thesis by (simp add: accumulate_Some)
    qed
  qed
qed

section \<open>Properties of the chunk loop\<close>

lemma range_from_closed:
  "0 < c \<Longrightarrow> range_from i n c = map (\<lambda>k. i + k * c) [0 ..< (n - i + c - 1) div c]"
proof (induction i n c rule: range_from.induct)
  case (1 i n c)
  show ?case
  proof (cases "n \<le> i")
    case True
    with 1(2) show ?thesis by (simp add: range_from_stop)
  next
    case False
    with 1 have IH: "range_from (i + c) n c = map (\<lambda>k. i + c + k * c) [0 ..< (n - (i + c) + c - 1) div c]"
      by simp
    from False 1(2) have d: "(n - i + c - 1) div c = Suc ((n - (i + c) + c - 1) div c)"
      by (intro div_step) simp_all
    from False 1(2) have "range_from i n c = i # range_from (i + c) n c"
      by (simp add: range_from_step)
    then show ?thesis unfolding IH d map_shift .
  qed
qed

lemma range_from_mem: "j \<in> set (range_from i n c) \<Longrightarrow> i \<le> j \<and> j < n"
proof (induction i n c rule: range_from.induct)
  case (1 i n c)
  show ?case
  proof (cases "c = 0 \<or> n \<le> i")
    case True
    with 1(2) show ?thesis by (simp add: range_from_stop)
  next
    case False
    then have "range_from i n c = i # range_from (i + c) n c" by (simp add: range_from_step)
    with 1 False show ?thesis by auto
  qed
qed

lemma range_from_butlast: "j \<in> set (butlast (range_from i n c)) \<Longrightarrow> j + c < n"
proof (induction i n c rule: range_from.induct)
  case (1 i n c)
  show ?case
  proof (cases "c = 0 \<or> n \<le> i")
    case True
    with 1(2) show ?thesis by (simp add: range_from_stop)
  next
    case False
    then have s: "range_from i n c = i # range_from (i + c) n c" by (simp add: range_from_step)
    show ?thesis
    proof (cases "range_from (i + c) n c = []")
      case True
      with s 1(2) show ?thesis by simp
    next
      case ne: False
      then obtain x where "x \<in> set (range_from (i + c) n c)" by (cases "range_from (i + c) n c") auto
      then have "i + c < n" using range_from_mem [of x "i + c" n c] by simp
      with 1 False s ne show ?thesis by auto
    qed
  qed
qed

lemma map_of_make_chunk:
  "map_of (make_chunk rb i c) k =
     map_option (\<lambda>v. if k \<in> set shared_keys then v else map_option (slice i c) v) (map_of rb k)"
  by (induction rb) (auto simp add: make_chunk_def split: option.splits)

lemma make_chunk_ray_o:
  "map_of rb ''ray_o'' = Some (Some t) \<Longrightarrow>
     map_of (make_chunk rb i c) ''ray_o'' = Some (Some (slice i c t))"
  by (simp add: map_of_make_chunk shared_keys_def)

lemma dict_append_frame:
  "dict_append key x d = Inr d' \<Longrightarrow> k \<noteq> key \<Longrightarrow> map_of d' k = map_of d k"
  by (simp add: dict_append_Inr)

lemma td_append_if_frame:
  "td_append_if name v td = Inr td' \<Longrightarrow> k \<noteq> name \<Longrightarrow> map_of td' k = map_of td k"
  by (cases v) (auto simp add: td_append_if_def dict_append_frame)

lemma td_append_weights_frame:
  "td_append_weights coarse td = Inr td' \<Longrightarrow> k \<noteq> ''weights'' \<Longrightarrow> map_of td' k = map_of td k"
  by (auto simp add: td_append_weights_def dict_append_frame split: option.splits)

lemma store_samples_ray_origins:
  assumes "store_samples r td = Inr td'"
  shows "map_of td' ''ray_origins'' = map_of td ''ray_origins''"
proof -
  from assms obtain td1 td2 td3 td4 td5 where
    s: "td_append_if ''sample_points'' (ret_sample_points r) td = Inr td1"
       "td_append_if ''features'' (ret_features r) td1 = Inr td2"
       "td_append_if ''colors'' (ret_colors r) td2 = Inr td3"
       "td_append_if ''densities'' (ret_densities r) td3 = Inr td4"
       "td_append_weights (ret_outputs_coarse r) td4 = Inr td5"
       "td_append_if ''z_values'' (ret_z_vals r) td5 = Inr td'"
    by (auto simp add: store_samples_def split: sum.splits)
  show ?thesis
    using td_append_if_frame [OF s(1), of "''ray_origins''"]
      td_append_if_frame [OF s(2), of "''ray_origins''"]
      td_append_if_frame [OF s(3), of "''ray_origins''"]
      td_append_if_frame [OF s(4), of "''ray_origins''"]
      td_append_weights_frame [OF s(5), of "''ray_origins''"]
      td_append_if_frame [OF s(6), of "''ray_origins''"]
    by simp
qed

lemma store_rays_ray_origins:
  assumes "store_rays chunk td = Inr td'" and "map_of chunk ''ray_o'' = Some ro"
  shows "map_of td' ''ray_origins'' = map_option (\<lambda>l. l @ [ro]) (map_of td ''ray_origins'')"
proof -
  from assms obtain td1 rd where
    s: "dict_append ''ray_origins'' ro td = Inr td1" "dict_append ''ray_directions'' rd td1 = Inr td'"
    by (auto simp add: store_rays_def dict_get_def split: sum.splits option.splits)
  show ?thesis
    using dict_append_Inr [OF s(1), of "''ray_origins''"] dict_append_Inr [OF s(2), of "''ray_origins''"]
    by simp
qed

lemma first_chunk_three_d: "first_chunk r st = Inr st' \<Longrightarrow> acc_three_d st' = acc_three_d st"
  by (auto simp add: first_chunk_def Let_def split: option.splits if_splits)

lemma cache_chunk_three_d: "cache_chunk i r st = Inr st' \<Longrightarrow> acc_three_d st' = acc_three_d st"
  by (auto simp add: cache_chunk_def split: sum.splits if_splits dest: first_chunk_three_d)

lemma chunk_step_ray_origins:
  assumes "chunk_step ev rb c u p i st = Inr st'" and "map_of rb ''ray_o'' = Some (Some t)"
  shows "map_of (acc_three_d st') ''ray_origins'' =
           map_option (\<lambda>l. l @ [Some (slice i c t)]) (map_of (acc_three_d st) ''ray_origins'')"
proof -
  from assms(1) obtain td1 r td2 where
    s: "store_rays (make_chunk rb i c) (acc_three_d st) = Inr td1"
       "store_samples r td1 = Inr td2"
       "cache_chunk i r (st\<lparr>acc_three_d := td2\<rparr>) = Inr st'"
    by (auto simp add: chunk_step_def Let_def split: sum.splits)
  show ?thesis
    using store_rays_ray_origins [OF s(1) make_chunk_ray_o [OF assms(2)]]
      store_samples_ray_origins [OF s(2)] cache_chunk_three_d [OF s(3)]
    by simp
qed

lemma for_each_ray_origins:
  assumes "for_each (chunk_step ev rb c u p) xs st = Inr st'" and "map_of rb ''ray_o'' = Some (Some t)"
  shows "map_of (acc_three_d st') ''ray_origins'' =
           map_option (\<lambda>l. l @ map (\<lambda>i. Some (slice i c t)) xs) (map_of (acc_three_d st) ''ray_origins'')"
  using assms(1)
proof (induction xs arbitrary: st)
  case Nil
  then show ?case by (simp add: option.map_ident)
next
  case (Cons x xs)
  then obtain s1 where s: "chunk_step ev rb c u p x st = Inr s1"
    "for_each (chunk_step ev rb c u p) xs s1 = Inr st'"
    by (auto split: sum.splits)
  from Cons.IH [OF s(2)] chunk_step_ray_origins [OF s(1) assms(2)] show ?case
    by (simp add: option.map_comp comp_def)
qed

lemma chunk_loop_ray_origins:
  assumes "chunk_loop ev rb c u p = Inr st" and "map_of rb ''ray_o'' = Some (Some t)"
  shows "map_of (acc_three_d st) ''ray_origins'' =
           Some (map (\<lambda>i. Some (slice i c t)) (range_from 0 (shape0 t) c))"
proof -
  from assms have "for_each (chunk_step ev rb c u p) (range_from 0 (shape0 t) c) accum_init = Inr st"
    by (simp add: chunk_loop_def dict_get_def Let_def split: if_splits)
  from for_each_ray_origins [OF this assms(2)] show ?thesis
    by (simp add: accum_init_def)
qed

lemma slice_rows_nth:
  "rows (slice i c t) = map (\<lambda>j. rows t ! j) [i ..< min (i + c) (shape0 t)]"
  by (auto simp add: slice_def shape0_def list_eq_iff_nth_eq min_def)

text \<open>
  C1. For a batch of \<open>N \<ge> 1\<close> rays and \<open>chunk_size \<ge> 1\<close>: the chunk starts are
  \<open>0, c, 2c, \<dots>\<close> (\<open>\<lceil>N / c\<rceil>\<close> of them); the chunk at start \<open>i\<close> is exactly the rays
  \<open>i, \<dots>, min (i + c) N - 1\<close> in their order, so chunks are contiguous and disjoint;
  every chunk has between 1 and \<open>c\<close> rays and every chunk but the last has \<open>c\<close>;
  the chunks concatenated are the batch, each ray once and in order. In a render
  whose loop completes, the chunk handed to the evaluator at start \<open>i\<close> carries these
  rays, and the rays recorded over all iterations are these chunks in order.
\<close>

theorem C1_chunks_partition:
  assumes "1 \<le> shape0 t" and "1 \<le> c"
  shows "range_from 0 (shape0 t) c = map (\<lambda>k. k * c) [0 ..< (shape0 t + c - 1) div c] \<and>
    (\<forall>i \<in> set (range_from 0 (shape0 t) c).
       rows (slice i c t) = map (\<lambda>j. rows t ! j) [i ..< min (i + c) (shape0 t)] \<and>
       1 \<le> shape0 (slice i c t) \<and> shape0 (slice i c t) \<le> c) \<and>
    (\<forall>i \<in> set (butlast (range_from 0 (shape0 t) c)). shape0 (slice i c t) = c) \<and>
    concat (map (\<lambda>i. rows (slice i c t)) (range_from 0 (shape0 t) c)) = rows t \<and>
    (\<forall>ev ray_batch u p st.
       map_of ray_batch ''ray_o'' = Some (Some t) \<longrightarrow>
       chunk_loop ev ray_batch c u p = Inr st \<longrightarrow>
       (\<forall>i. map_of (make_chunk ray_batch i c) ''ray_o'' = Some (Some (slice i c t))) \<and>
       map_of (acc_three_d st) ''ray_origins'' =
         Some (map (\<lambda>i. Some (slice i c t)) (range_from 0 (shape0 t) c)))"
proof -
  from assms(2) have c: "0 < c" by simp
  have a: "range_from 0 (shape0 t) c = map (\<lambda>k. k * c) [0 ..< (shape0 t + c - 1) div c]"
    using range_from_closed [OF c, of 0 "shape0 t"] by simp
  have b: "rows (slice i c t) = map (\<lambda>j. rows t ! j) [i ..< min (i + c) (shape0 t)] \<and>
       1 \<le> shape0 (slice i c t) \<and> shape0 (slice i c t) \<le> c"
    if "i \<in> set (range_from 0 (shape0 t) c)" for i
  proof -
    from range_from_mem [OF that] have "i < shape0 t" by simp
    then show ?thesis using c by (simp add: slice_rows_nth) (simp add: slice_def shape0_def)
  qed
  have d: "shape0 (slice i c t) = c" if "i \<in> set (butlast (range_from 0 (shape0 t) c))" for i
    using range_from_butlast [OF that] by (simp add: slice_def shape0_def)
  have e: "concat (map (\<lambda>i. rows (slice i c t)) (range_from 0 (shape0 t) c)) = rows t"
    using concat_chunks [OF c, of "rows t" 0] by (simp add: slice_def shape0_def)
  have f: "(\<forall>i. map_of (make_chunk ray_batch i c) ''ray_o'' = Some (Some (slice i c t))) \<and>
       map_of (acc_three_d st) ''ray_origins'' =
         Some (map (\<lambda>i. Some (slice i c t)) (range_from 0 (shape0 t) c))"
    if "map_of ray_batch ''ray_o'' = Some (Some t)" "chunk_loop ev ray_batch c u p = Inr st"
    for ev ray_batch u p and st :: "'a accum"
    using that make_chunk_ray_o chunk_loop_ray_origins by blast
  from a b d e f show ?thesis by blast
qed

end
